theory Spec2Isabelle
  imports Main
begin

section \<open>JavaScript values\<close>

text \<open>
  Identifiers, e-mail addresses, names and opaque tokens are only compared and tested for
  emptiness by the code, so they are kept as \<^typ>\<open>string\<close>. A password is measured with
  \<^verbatim>\<open>.length\<close> and scanned by regular expressions, both of which work on UTF-16 code
  units, so a password is a list of code units.
\<close>

type_synonym jsstring = "nat list"

definition utf16 :: "string \<Rightarrow> jsstring" where
  "utf16 s = map of_char s"

text \<open>
  A field of a JSON request body: a string, or some other value (missing, null, a number,
  an object) of which only the JavaScript truthiness matters.
\<close>

datatype 'a field = Str 'a | NonString bool

section \<open>src/utils/auth.ts: AuthUtils\<close>

subsection \<open>bcryptjs, symbolically\<close>

text \<open>
  \<^verbatim>\<open>bcrypt.hash(password, 12)\<close> draws a salt and returns a digest from which
  \<^verbatim>\<open>bcrypt.compare\<close> recognises exactly the hashed password. bcrypt reads no more than
  the first 72 bytes of a password; the stand-in compares whole passwords, which is the
  same for passwords within that length.
\<close>

datatype digest = Bcrypt string jsstring

definition hashPassword :: "string \<Rightarrow> jsstring \<Rightarrow> digest" where
  "hashPassword salt password = Bcrypt salt password"

fun comparePassword :: "jsstring \<Rightarrow> digest \<Rightarrow> bool" where
  "comparePassword password (Bcrypt s p) = (p = password)"

subsection \<open>jsonwebtoken, symbolically\<close>

text \<open>
  A token string is either a well-formed JWT, given by its payload and the secret its
  HMAC was computed with, or any other string. \<^verbatim>\<open>iat\<close> and \<^verbatim>\<open>exp\<close> are in seconds.
  The stand-in is of a server whose \<^verbatim>\<open>JWT_SECRET\<close> is set: with an empty secret
  jsonwebtoken throws instead of signing or verifying.
\<close>

record jwt_payload =
  jwt_userId :: string
  jwt_type :: string
  iat :: nat
  exp :: nat

datatype token = Jwt jwt_payload string | Opaque string

text \<open>The configuration and the clock that AuthUtils reads; \<open>now\<close> is \<^verbatim>\<open>Date.now()\<close> in ms.\<close>

record jwt_env =
  now :: nat
  JWT_SECRET :: string
  JWT_ACCESS_EXPIRES :: nat
  JWT_REFRESH_EXPIRES :: nat

definition jwt_sign :: "string \<Rightarrow> string \<Rightarrow> string \<Rightarrow> nat \<Rightarrow> nat \<Rightarrow> token" where
  "jwt_sign uid ty secret expiresIn t =
     Jwt \<lparr>jwt_userId = uid, jwt_type = ty, iat = t div 1000, exp = t div 1000 + expiresIn\<rparr> secret"

text \<open>\<^verbatim>\<open>jwt.verify\<close> throws on a malformed token, a bad signature and an elapsed expiry.\<close>

datatype jwt_error = JsonWebTokenError | TokenExpiredError

fun jwt_verify :: "token field \<Rightarrow> string \<Rightarrow> nat \<Rightarrow> jwt_error + jwt_payload" where
  "jwt_verify (NonString b) secret t = Inl JsonWebTokenError"
| "jwt_verify (Str (Opaque s)) secret t = Inl JsonWebTokenError"
| "jwt_verify (Str (Jwt p k)) secret t =
     (if k \<noteq> secret then Inl JsonWebTokenError
      else if exp p \<le> t div 1000 then Inl TokenExpiredError
      else Inr p)"

definition generateAccessToken :: "('a jwt_env_scheme) \<Rightarrow> string \<Rightarrow> token" where
  "generateAccessToken e userId =
     jwt_sign userId ''access'' (JWT_SECRET e) (JWT_ACCESS_EXPIRES e) (now e)"

definition generateRefreshToken :: "('a jwt_env_scheme) \<Rightarrow> string \<Rightarrow> token" where
  "generateRefreshToken e userId =
     jwt_sign userId ''refresh'' (JWT_SECRET e) (JWT_REFRESH_EXPIRES e) (now e)"

text \<open>
  Both verifiers rethrow every failure, including their own type check, as one error
  with a fixed message; \<open>Inl\<close> carries that message.
\<close>

definition verifyAccessToken :: "('a jwt_env_scheme) \<Rightarrow> token field \<Rightarrow> string + string" where
  "verifyAccessToken e tok =
     (case jwt_verify tok (JWT_SECRET e) (now e) of
        Inl err \<Rightarrow> Inl ''Invalid or expired token''
      | Inr decoded \<Rightarrow>
          if jwt_type decoded \<noteq> ''access'' then Inl ''Invalid or expired token''
          else Inr (jwt_userId decoded))"

definition verifyRefreshToken :: "('a jwt_env_scheme) \<Rightarrow> token field \<Rightarrow> string + string" where
  "verifyRefreshToken e tok =
     (case jwt_verify tok (JWT_SECRET e) (now e) of
        Inl err \<Rightarrow> Inl ''Invalid or expired refresh token''
      | Inr decoded \<Rightarrow>
          if jwt_type decoded \<noteq> ''refresh'' then Inl ''Invalid or expired refresh token''
          else Inr (jwt_userId decoded))"

subsection \<open>isPasswordStrong\<close>

record password_check =
  valid :: bool
  message :: "string option"

definition lineTerminator :: "nat \<Rightarrow> bool" where
  "lineTerminator c = (c = 10 \<or> c = 13 \<or> c = 8232 \<or> c = 8233)"

text \<open>
  \<^verbatim>\<open>/(?=.*[cls])/.test(s)\<close>: at some start position, the lookahead \<^verbatim>\<open>.*[cls]\<close> matches.
  \<open>dotstar_class\<close> is the lookahead at the head of the list.
\<close>

fun dotstar_class :: "(nat \<Rightarrow> bool) \<Rightarrow> jsstring \<Rightarrow> bool" where
  "dotstar_class cls [] = False"
| "dotstar_class cls (c # cs) = (cls c \<or> (\<not> lineTerminator c \<and> dotstar_class cls cs))"

fun lookahead_test :: "(nat \<Rightarrow> bool) \<Rightarrow> jsstring \<Rightarrow> bool" where
  "lookahead_test cls [] = False"
| "lookahead_test cls (c # cs) = (dotstar_class cls (c # cs) \<or> lookahead_test cls cs)"

definition lower_class :: "nat \<Rightarrow> bool" where
  "lower_class c = (97 \<le> c \<and> c \<le> 122)"

definition upper_class :: "nat \<Rightarrow> bool" where
  "upper_class c = (65 \<le> c \<and> c \<le> 90)"

definition digit_class :: "nat \<Rightarrow> bool" where
  "digit_class c = (48 \<le> c \<and> c \<le> 57)"

definition special_class :: "nat \<Rightarrow> bool" where
  "special_class c = (c \<in> set (utf16 ''@$!%*?&''))"

definition isPasswordStrong :: "jsstring \<Rightarrow> password_check" where
  "isPasswordStrong password =
     (if length password < 8 then
        \<lparr>valid = False, message = Some ''Password must be at least 8 characters long''\<rparr>
      else if \<not> lookahead_test lower_class password then
        \<lparr>valid = False, message = Some ''Password must contain at least one lowercase letter''\<rparr>
      else if \<not> lookahead_test upper_class password then
        \<lparr>valid = False, message = Some ''Password must contain at least one uppercase letter''\<rparr>
      else if \<not> lookahead_test digit_class password then
        \<lparr>valid = False, message = Some ''Password must contain at least one number''\<rparr>
      else if \<not> lookahead_test special_class password then
        \<lparr>valid = False, message = Some ''Password must contain at least one special character''\<rparr>
      else \<lparr>valid = True, message = None\<rparr>)"

subsection \<open>The policy as the specification words it\<close>

text \<open>
  Five rules in a fixed order, each a test on the password with the message reported when
  it fails; the first failing rule decides.
\<close>

definition policy_rules :: "((jsstring \<Rightarrow> bool) \<times> string) list" where
  "policy_rules =
     [(\<lambda>p. 8 \<le> length p, ''Password must be at least 8 characters long''),
      (list_ex lower_class, ''Password must contain at least one lowercase letter''),
      (list_ex upper_class, ''Password must contain at least one uppercase letter''),
      (list_ex digit_class, ''Password must contain at least one number''),
      (list_ex special_class, ''Password must contain at least one special character'')]"

definition policy_spec :: "jsstring \<Rightarrow> password_check" where
  "policy_spec p =
     (case find (\<lambda>r. \<not> fst r p) policy_rules of
        None \<Rightarrow> \<lparr>valid = True, message = None\<rparr>
      | Some r \<Rightarrow> \<lparr>valid = False, message = Some (snd r)\<rparr>)"

section \<open>The identity store\<close>

text \<open>
  Modelled from the spec: the schema of the users and refresh-token tables beyond the
  initial migration is not among the sources. The columns are those the controller reads
  and writes (spec, section 3); a user is created unverified unless the controller sets
  the flag (section 4.5); no uniqueness constraint holds on refresh tokens (section 5).

  The two tables are lists in storage order. The primary key is \<open>uid\<close> (the column
  \<^verbatim>\<open>id\<close>); \<open>email\<close> and non-null \<open>googleId\<close> are unique by the indexes of the initial
  migration. Times are milliseconds since the epoch; the columns \<^verbatim>\<open>createdAt\<close> and
  \<^verbatim>\<open>updatedAt\<close> are left out.
\<close>

record user =
  uid :: string
  email :: string
  name :: string
  password :: "digest option"
  isVerified :: bool
  verificationToken :: "string option"
  verificationExpires :: "nat option"
  resetPasswordToken :: "string option"
  resetPasswordExpires :: "nat option"
  googleId :: "string option"
  picture :: "string option"

record refresh_token_row =
  token :: token
  userId :: string
  expiresAt :: nat

record db =
  users :: "user list"
  refreshTokens :: "refresh_token_row list"

text \<open>\<^verbatim>\<open>prisma.user.findUnique({ where: { email } })\<close>\<close>

definition findUniqueEmail :: "db \<Rightarrow> string \<Rightarrow> user option" where
  "findUniqueEmail d e = find (\<lambda>u. email u = e) (users d)"

text \<open>\<^verbatim>\<open>expires: { gt: new Date() }\<close> on a nullable column.\<close>

definition gt_now :: "nat option \<Rightarrow> nat \<Rightarrow> bool" where
  "gt_now t n = (case t of None \<Rightarrow> False | Some x \<Rightarrow> n < x)"

text \<open>
  \<^verbatim>\<open>prisma.user.create\<close>; \<open>None\<close> is the unique-constraint error Prisma throws.
\<close>

definition user_create :: "db \<Rightarrow> user \<Rightarrow> db option" where
  "user_create d u =
     (if list_ex (\<lambda>v. uid v = uid u \<or> email v = email u
                       \<or> (googleId u \<noteq> None \<and> googleId v = googleId u)) (users d)
      then None
      else Some (d\<lparr>users := users d @ [u]\<rparr>))"

text \<open>\<^verbatim>\<open>prisma.user.update({ where: { id }, data })\<close> with \<open>f\<close> the change \<^verbatim>\<open>data\<close> makes.\<close>

definition user_update :: "db \<Rightarrow> string \<Rightarrow> (user \<Rightarrow> user) \<Rightarrow> db" where
  "user_update d i f = d\<lparr>users := map (\<lambda>u. if uid u = i then f u else u) (users d)\<rparr>"

definition refreshToken_create :: "db \<Rightarrow> refresh_token_row \<Rightarrow> db" where
  "refreshToken_create d r = d\<lparr>refreshTokens := refreshTokens d @ [r]\<rparr>"

text \<open>\<^verbatim>\<open>prisma.refreshToken.deleteMany({ where })\<close> removes the rows \<open>P\<close> selects.\<close>

definition refreshToken_deleteMany :: "db \<Rightarrow> (refresh_token_row \<Rightarrow> bool) \<Rightarrow> db" where
  "refreshToken_deleteMany d P = d\<lparr>refreshTokens := filter (\<lambda>r. \<not> P r) (refreshTokens d)\<rparr>"

section \<open>The environment of a request\<close>

text \<open>What Google's libraries return for a token: the fields the controller reads.\<close>

record google_user =
  g_email :: "string option"
  g_sub :: "string option"
  g_name :: "string option"
  g_given_name :: "string option"
  g_picture :: "string option"

text \<open>
  Everything a handler reads besides the store and the request: the clock and JWT
  configuration, the 32 random bytes in hex, the bcrypt salt, the primary key the store
  gives a new user, zod's e-mail test, whether the mail transport rejects, and Google's two
  verifications (\<open>None\<close> where the call throws; \<^verbatim>\<open>getPayload()\<close> may be undefined).
\<close>

record env = jwt_env +
  randomHex :: string
  salt :: string
  newUserId :: string
  isEmail :: "string \<Rightarrow> bool"
  sendMailThrows :: bool
  verifyIdToken :: "string field \<Rightarrow> google_user option option"
  userinfo :: "string field \<Rightarrow> google_user option"

section \<open>HTTP responses\<close>

datatype user_view =
  Selected string string string bool
| WithPicture string string string "string option" bool

text \<open>
  The JSON bodies the controller sends. \<open>ZodInvalidType\<close> is \<^verbatim>\<open>{ error }\<close> with zod's own
  message for a field that is not a string; \<open>NoError\<close> is \<^verbatim>\<open>{ error: undefined }\<close>.
\<close>

datatype body =
  Error string
| ZodInvalidType
| NoError
| ErrorCode string string
| Message string
| MessageUser string user_view
| MessageUserTokens string user_view token token
| AccessTokenUser token "user_view option"

record response =
  status :: nat
  body :: body

definition internal_error :: response where
  "internal_error = \<lparr>status = 500, body = Error ''Internal server error''\<rparr>"

section \<open>src/controllers/authController.ts: validation schemas\<close>

datatype zod_issue = InvalidType | Issue string

text \<open>\<^verbatim>\<open>res.status(400).json({ error: error.errors[0].message })\<close>\<close>

definition zod_response :: "zod_issue \<Rightarrow> response" where
  "zod_response i =
     (case i of
        InvalidType \<Rightarrow> \<lparr>status = 400, body = ZodInvalidType\<rparr>
      | Issue m \<Rightarrow> \<lparr>status = 400, body = Error m\<rparr>)"

text \<open>
  \<^verbatim>\<open>z.string().email(msg)\<close> and \<^verbatim>\<open>z.string().min(n, msg)\<close>: the parsed string, or the
  issue of the field.
\<close>

definition z_email :: "env \<Rightarrow> string field \<Rightarrow> string \<Rightarrow> zod_issue + string" where
  "z_email e f msg =
     (case f of NonString b \<Rightarrow> Inl InvalidType
      | Str s \<Rightarrow> if isEmail e s then Inr s else Inl (Issue msg))"

definition z_min :: "nat \<Rightarrow> 'a list field \<Rightarrow> string \<Rightarrow> zod_issue + 'a list" where
  "z_min n f msg =
     (case f of NonString b \<Rightarrow> Inl InvalidType
      | Str s \<Rightarrow> if n \<le> length s then Inr s else Inl (Issue msg))"

text \<open>
  A schema lists the issues of its fields in the order of its keys and the handlers
  answer with \<^verbatim>\<open>errors[0]\<close>, the issue of the first field that has one.
\<close>

definition signupSchema ::
  "env \<Rightarrow> string field \<Rightarrow> jsstring field \<Rightarrow> string field
     \<Rightarrow> zod_issue + (string \<times> jsstring \<times> string)" where
  "signupSchema e em pw nm =
     (case z_email e em ''Invalid email address'' of
        Inl i \<Rightarrow> Inl i
      | Inr email' \<Rightarrow>
          (case z_min 8 pw ''Password must be at least 8 characters'' of
             Inl i \<Rightarrow> Inl i
           | Inr password' \<Rightarrow>
               (case z_min 1 nm ''Name is required'' of
                  Inl i \<Rightarrow> Inl i
                | Inr name' \<Rightarrow> Inr (email', password', name'))))"

definition loginSchema ::
  "env \<Rightarrow> string field \<Rightarrow> jsstring field \<Rightarrow> zod_issue + (string \<times> jsstring)" where
  "loginSchema e em pw =
     (case z_email e em ''Invalid email address'' of
        Inl i \<Rightarrow> Inl i
      | Inr email' \<Rightarrow>
          (case z_min 1 pw ''Password is required'' of
             Inl i \<Rightarrow> Inl i
           | Inr password' \<Rightarrow> Inr (email', password')))"

definition forgotPasswordSchema :: "env \<Rightarrow> string field \<Rightarrow> zod_issue + string" where
  "forgotPasswordSchema e em = z_email e em ''Invalid email address''"

definition resetPasswordSchema ::
  "string field \<Rightarrow> jsstring field \<Rightarrow> zod_issue + (string \<times> jsstring)" where
  "resetPasswordSchema tok pw =
     (case z_min 1 tok ''Token is required'' of
        Inl i \<Rightarrow> Inl i
      | Inr token' \<Rightarrow>
          (case z_min 8 pw ''Password must be at least 8 characters'' of
             Inl i \<Rightarrow> Inl i
           | Inr password' \<Rightarrow> Inr (token', password')))"

section \<open>src/controllers/authController.ts: AuthController\<close>

text \<open>
  A handler takes the environment, the store and the fields of the request it reads, and
  returns the response with the store it leaves. One clock reading serves a whole request.
  Mail contents and console output are not modelled; the store itself does not fail
  except on a unique constraint.
\<close>

definition day :: nat where
  "day = 24 * 60 * 60 * 1000"

definition policy_error :: "password_check \<Rightarrow> response" where
  "policy_error passwordCheck =
     \<lparr>status = 400,
      body = (case message passwordCheck of Some m \<Rightarrow> Error m | None \<Rightarrow> NoError)\<rparr>"

definition signup ::
  "env \<Rightarrow> db \<Rightarrow> string field \<Rightarrow> jsstring field \<Rightarrow> string field \<Rightarrow> response \<times> db" where
  "signup e d email_f password_f name_f =
     (case signupSchema e email_f password_f name_f of
        Inl issue \<Rightarrow> (zod_response issue, d)
      | Inr (email', password', name') \<Rightarrow>
          let passwordCheck = isPasswordStrong password' in
          if \<not> valid passwordCheck then (policy_error passwordCheck, d)
          else
            (case findUniqueEmail d email' of
               Some existingUser \<Rightarrow>
                 (\<lparr>status = 409, body = Error ''User already exists with this email''\<rparr>, d)
             | None \<Rightarrow>
                 let hashedPassword = hashPassword (salt e) password';
                     verificationToken' = randomHex e;
                     verificationExpires' = now e + day
                 in
                 (case user_create d
                         \<lparr>uid = newUserId e, email = email', name = name',
                          password = Some hashedPassword, isVerified = False,
                          verificationToken = Some verificationToken',
                          verificationExpires = Some verificationExpires',
                          resetPasswordToken = None, resetPasswordExpires = None,
                          googleId = None, picture = None\<rparr> of
                    None \<Rightarrow> (internal_error, d)
                  | Some d' \<Rightarrow>
                      \<comment> \<open>the mail is sent inside its own try/catch\<close>
                      (\<lparr>status = 201,
                        body = MessageUser
                          ''Account created successfully. Please check your email to verify your account.''
                          (Selected (newUserId e) email' name' False)\<rparr>, d'))))"

definition login :: "env \<Rightarrow> db \<Rightarrow> string field \<Rightarrow> jsstring field \<Rightarrow> response \<times> db" where
  "login e d email_f password_f =
     (case loginSchema e email_f password_f of
        Inl issue \<Rightarrow> (zod_response issue, d)
      | Inr (email', password') \<Rightarrow>
          (case findUniqueEmail d email' of
             None \<Rightarrow> (\<lparr>status = 401, body = Error ''Invalid email or password''\<rparr>, d)
           | Some user \<Rightarrow>
               (case password user of
                  None \<Rightarrow> (\<lparr>status = 401, body = Error ''Invalid email or password''\<rparr>, d)
                | Some hashed \<Rightarrow>
                    if \<not> comparePassword password' hashed then
                      (\<lparr>status = 401, body = Error ''Invalid email or password''\<rparr>, d)
                    else if \<not> isVerified user then
                      (\<lparr>status = 401,
                        body = ErrorCode ''Please verify your email address before logging in''
                                 ''EMAIL_NOT_VERIFIED''\<rparr>, d)
                    else
                      let accessToken = generateAccessToken e (uid user);
                          refreshToken' = generateRefreshToken e (uid user);
                          refreshTokenExpires = now e + 7 * day;
                          d' = refreshToken_create d
                                 \<lparr>token = refreshToken', userId = uid user,
                                  expiresAt = refreshTokenExpires\<rparr>
                      in (\<lparr>status = 200,
                           body = MessageUserTokens ''Login successful''
                                    (Selected (uid user) (email user) (name user) (isVerified user))
                                    accessToken refreshToken'\<rparr>, d'))))"

definition verifyEmail :: "env \<Rightarrow> db \<Rightarrow> string \<Rightarrow> response \<times> db" where
  "verifyEmail e d tok =
     (case find (\<lambda>u. verificationToken u = Some tok \<and> gt_now (verificationExpires u) (now e))
             (users d) of
        None \<Rightarrow> (\<lparr>status = 400, body = Error ''Invalid or expired verification token''\<rparr>, d)
      | Some user \<Rightarrow>
          (\<lparr>status = 200, body = Message ''Email verified successfully''\<rparr>,
           user_update d (uid user)
             (\<lambda>u. u\<lparr>isVerified := True, verificationToken := None,
                     verificationExpires := None\<rparr>)))"

text \<open>
  \<open>resendVerification\<close> reads \<^verbatim>\<open>req.body.email\<close> unvalidated (Prisma rejects a value that
  is not a string) and awaits the mail inside the handler's only try block.
\<close>

definition resendVerification :: "env \<Rightarrow> db \<Rightarrow> string field \<Rightarrow> response \<times> db" where
  "resendVerification e d email_f =
     (case email_f of
        NonString b \<Rightarrow> (internal_error, d)
      | Str email' \<Rightarrow>
          (case findUniqueEmail d email' of
             None \<Rightarrow> (\<lparr>status = 404, body = Error ''User not found''\<rparr>, d)
           | Some user \<Rightarrow>
               if isVerified user then
                 (\<lparr>status = 400, body = Error ''Email is already verified''\<rparr>, d)
               else
                 let verificationToken' = randomHex e;
                     verificationExpires' = now e + day;
                     d' = user_update d (uid user)
                            (\<lambda>u. u\<lparr>verificationToken := Some verificationToken',
                                    verificationExpires := Some verificationExpires'\<rparr>)
                 in if sendMailThrows e then (internal_error, d')
                    else (\<lparr>status = 200,
                           body = Message ''Verification email sent successfully''\<rparr>, d')))"

definition forgotPassword :: "env \<Rightarrow> db \<Rightarrow> string field \<Rightarrow> response \<times> db" where
  "forgotPassword e d email_f =
     (case forgotPasswordSchema e email_f of
        Inl issue \<Rightarrow> (zod_response issue, d)
      | Inr email' \<Rightarrow>
          (case findUniqueEmail d email' of
             None \<Rightarrow>
               (\<lparr>status = 200,
                 body = Message
                   ''If an account with that email exists, we have sent a password reset link.''\<rparr>,
                d)
           | Some user \<Rightarrow>
               let resetToken = randomHex e;
                   resetExpires = now e + 60 * 60 * 1000;
                   d' = user_update d (uid user)
                          (\<lambda>u. u\<lparr>resetPasswordToken := Some resetToken,
                                  resetPasswordExpires := Some resetExpires\<rparr>)
               in if sendMailThrows e then (internal_error, d')
                  else
                    (\<lparr>status = 200,
                      body = Message
                        ''If an account with that email exists, we have sent a password reset link.''\<rparr>,
                     d')))"

definition resetPassword :: "env \<Rightarrow> db \<Rightarrow> string field \<Rightarrow> jsstring field \<Rightarrow> response \<times> db" where
  "resetPassword e d token_f password_f =
     (case resetPasswordSchema token_f password_f of
        Inl issue \<Rightarrow> (zod_response issue, d)
      | Inr (token', password') \<Rightarrow>
          let passwordCheck = isPasswordStrong password' in
          if \<not> valid passwordCheck then (policy_error passwordCheck, d)
          else
            (case find (\<lambda>u. resetPasswordToken u = Some token'
                              \<and> gt_now (resetPasswordExpires u) (now e)) (users d) of
               None \<Rightarrow> (\<lparr>status = 400, body = Error ''Invalid or expired reset token''\<rparr>, d)
             | Some user \<Rightarrow>
                 let hashedPassword = hashPassword (salt e) password';
                     d1 = user_update d (uid user)
                            (\<lambda>u. u\<lparr>password := Some hashedPassword,
                                    resetPasswordToken := None,
                                    resetPasswordExpires := None\<rparr>);
                     d2 = refreshToken_deleteMany d1 (\<lambda>r. userId r = uid user)
                 in \<comment> \<open>the notification is sent inside its own try/catch\<close>
                    (\<lparr>status = 200, body = Message ''Password reset successfully''\<rparr>, d2)))"

text \<open>JavaScript truthiness of the values the handlers test with \<^verbatim>\<open>!\<close>.\<close>

fun truthy_token :: "token field \<Rightarrow> bool" where
  "truthy_token (NonString b) = b"
| "truthy_token (Str (Opaque s)) = (s \<noteq> [])"
| "truthy_token (Str (Jwt p k)) = True"

fun truthy_string :: "string field \<Rightarrow> bool" where
  "truthy_string (NonString b) = b"
| "truthy_string (Str s) = (s \<noteq> [])"

fun truthy :: "string option \<Rightarrow> bool" where
  "truthy None = False"
| "truthy (Some s) = (s \<noteq> [])"

text \<open>\<^verbatim>\<open>include: { user: { select: { id, email, name, isVerified } } }\<close>\<close>

definition include_user :: "db \<Rightarrow> refresh_token_row \<Rightarrow> user_view option" where
  "include_user d r =
     map_option (\<lambda>u. Selected (uid u) (email u) (name u) (isVerified u))
       (find (\<lambda>u. uid u = userId r) (users d))"

definition refreshToken :: "env \<Rightarrow> db \<Rightarrow> token field \<Rightarrow> response \<times> db" where
  "refreshToken e d refreshToken_f =
     (if \<not> truthy_token refreshToken_f then
        (\<lparr>status = 401, body = Error ''Refresh token is required''\<rparr>, d)
      else
        (case verifyRefreshToken e refreshToken_f of
           Inl err \<Rightarrow> (\<lparr>status = 401, body = Error ''Invalid or expired refresh token''\<rparr>, d)
         | Inr decoded_userId \<Rightarrow>
             (case find (\<lambda>r. Str (token r) = refreshToken_f \<and> userId r = decoded_userId
                               \<and> now e < expiresAt r) (refreshTokens d) of
                None \<Rightarrow>
                  (\<lparr>status = 401, body = Error ''Invalid or expired refresh token''\<rparr>, d)
              | Some storedToken \<Rightarrow>
                  let newAccessToken = generateAccessToken e decoded_userId
                  in (\<lparr>status = 200,
                       body = AccessTokenUser newAccessToken (include_user d storedToken)\<rparr>,
                      d))))"

definition logout :: "db \<Rightarrow> token field \<Rightarrow> response \<times> db" where
  "logout d refreshToken_f =
     (if truthy_token refreshToken_f then
        (case refreshToken_f of
           NonString b \<Rightarrow> (internal_error, d)
         | Str t \<Rightarrow>
             (\<lparr>status = 200, body = Message ''Logged out successfully''\<rparr>,
              refreshToken_deleteMany d (\<lambda>r. token r = t)))
      else (\<lparr>status = 200, body = Message ''Logged out successfully''\<rparr>, d))"

definition logoutAll :: "db \<Rightarrow> string \<Rightarrow> response \<times> db" where
  "logoutAll d userId' =
     (\<lparr>status = 200, body = Message ''Logged out from all devices successfully''\<rparr>,
      refreshToken_deleteMany d (\<lambda>r. userId r = userId'))"

text \<open>
  Google sign-in. The token is verified first as an ID token and, when that throws, as
  an access token through the userinfo endpoint.
\<close>

definition google_verify :: "env \<Rightarrow> string field \<Rightarrow> google_user option option" where
  "google_verify e tok =
     (case verifyIdToken e tok of
        Some payload \<Rightarrow> Some payload
      | None \<Rightarrow> (case userinfo e tok of None \<Rightarrow> None | Some data \<Rightarrow> Some (Some data)))"

text \<open>\<^verbatim>\<open>googleUser.name || googleUser.given_name || "User"\<close>\<close>

definition google_name :: "google_user \<Rightarrow> string" where
  "google_name g =
     (if truthy (g_name g) then the (g_name g)
      else if truthy (g_given_name g) then the (g_given_name g)
      else ''User'')"

text \<open>The tail of the handler: the token pair, the stored refresh token, the answer.\<close>

definition google_issue :: "env \<Rightarrow> db \<Rightarrow> user \<Rightarrow> response \<times> db" where
  "google_issue e d user =
     (let accessToken = generateAccessToken e (uid user);
          refreshToken' = generateRefreshToken e (uid user);
          refreshTokenExpires = now e + 7 * day;
          d' = refreshToken_create d
                 \<lparr>token = refreshToken', userId = uid user, expiresAt = refreshTokenExpires\<rparr>
      in (\<lparr>status = 200,
           body = MessageUserTokens ''Google authentication successful''
                    (WithPicture (uid user) (email user) (name user) (picture user)
                       (isVerified user))
                    accessToken refreshToken'\<rparr>, d'))"

text \<open>
  The update of an existing account; a \<^verbatim>\<open>picture\<close> that is undefined leaves the column
  as it is. \<open>None\<close> is the unique-constraint error on \<open>googleId\<close>.
\<close>

definition google_backfill :: "google_user \<Rightarrow> user \<Rightarrow> user" where
  "google_backfill g u =
     u\<lparr>googleId := g_sub g, isVerified := True,
       picture := (case g_picture g of None \<Rightarrow> picture u | Some p \<Rightarrow> Some p)\<rparr>"

definition google_update :: "db \<Rightarrow> user \<Rightarrow> google_user \<Rightarrow> (user \<times> db) option" where
  "google_update d user g =
     (if list_ex (\<lambda>v. uid v \<noteq> uid user \<and> googleId v = g_sub g) (users d) then None
      else Some (google_backfill g user, user_update d (uid user) (google_backfill g)))"

definition googleAuth :: "env \<Rightarrow> db \<Rightarrow> string field \<Rightarrow> response \<times> db" where
  "googleAuth e d token_f =
     (if \<not> truthy_string token_f then
        (\<lparr>status = 400, body = Error ''Google token is required''\<rparr>, d)
      else
        (case google_verify e token_f of
           None \<Rightarrow> (\<lparr>status = 401, body = Error ''Invalid Google token''\<rparr>, d)
         | Some None \<Rightarrow>
             (\<lparr>status = 401, body = Error ''Unable to get user info from Google token''\<rparr>, d)
         | Some (Some googleUser) \<Rightarrow>
             if \<not> truthy (g_email googleUser) then
               (\<lparr>status = 401, body = Error ''Unable to get user info from Google token''\<rparr>, d)
             else
               (case findUniqueEmail d (the (g_email googleUser)) of
                  Some user \<Rightarrow>
                    if \<not> truthy (googleId user) \<and> truthy (g_sub googleUser) then
                      (case google_update d user googleUser of
                         None \<Rightarrow> (internal_error, d)
                       | Some (user', d') \<Rightarrow> google_issue e d' user')
                    else google_issue e d user
                | None \<Rightarrow>
                    let user = \<lparr>uid = newUserId e, email = the (g_email googleUser),
                                name = google_name googleUser, password = None,
                                isVerified = True, verificationToken = None,
                                verificationExpires = None, resetPasswordToken = None,
                                resetPasswordExpires = None, googleId = g_sub googleUser,
                                picture = g_picture googleUser\<rparr>
                    in (case user_create d user of
                          None \<Rightarrow> (internal_error, d)
                        | Some d' \<Rightarrow> google_issue e d' user))))"

section \<open>src/middleware/auth.ts: authMiddleware\<close>

text \<open>
  The header is \<open>None\<close> when it is absent or does not start with \<^verbatim>\<open>Bearer \<close>, and
  otherwise what follows the prefix. \<open>Inr\<close> is \<^verbatim>\<open>next()\<close> with the user attached to the
  request.
\<close>

definition authMiddleware :: "env \<Rightarrow> db \<Rightarrow> token option \<Rightarrow> response + user_view" where
  "authMiddleware e d authHeader =
     (case authHeader of
        None \<Rightarrow> Inl \<lparr>status = 401, body = Error ''Access token required''\<rparr>
      | Some tok \<Rightarrow>
          (case verifyAccessToken e (Str tok) of
             Inl err \<Rightarrow> Inl \<lparr>status = 401, body = Error ''Invalid or expired token''\<rparr>
           | Inr decoded_userId \<Rightarrow>
               (case find (\<lambda>u. uid u = decoded_userId \<and> isVerified u) (users d) of
                  None \<Rightarrow> Inl \<lparr>status = 401, body = Error ''Invalid token or user not found''\<rparr>
                | Some user \<Rightarrow>
                    Inr (Selected (uid user) (email user) (name user) (isVerified user)))))"

section \<open>Well-formed stores\<close>

text \<open>
  Every refresh-token row is written by \<open>login\<close> or \<open>googleAuth\<close>, with a token signed
  for the user the row belongs to.
\<close>

fun token_names :: "token \<Rightarrow> string \<Rightarrow> bool" where
  "token_names (Jwt p k) i = (jwt_userId p = i)"
| "token_names (Opaque s) i = False"

definition rows_signed_for_owner :: "db \<Rightarrow> bool" where
  "rows_signed_for_owner d = list_all (\<lambda>r. token_names (token r) (userId r)) (refreshTokens d)"

section \<open>A concrete store and environment\<close>

definition ann :: user where
  "ann = \<lparr>uid = ''u1'', email = ''ann@example.com'', name = ''Ann'',
          password = Some (Bcrypt ''s1'' (utf16 ''Valid123!'')), isVerified = False,
          verificationToken = Some ''v1'', verificationExpires = Some 90000000,
          resetPasswordToken = Some ''r1'', resetPasswordExpires = Some 5000000,
          googleId = None, picture = None\<rparr>"

definition id_payload :: google_user where
  "id_payload = \<lparr>g_email = Some ''bob@example.com'', g_sub = Some ''g-7'',
                 g_name = Some ''Bob'', g_given_name = None, g_picture = None\<rparr>"

definition userinfo_data :: google_user where
  "userinfo_data = \<lparr>g_email = Some ''ann@example.com'', g_sub = None,
                    g_name = Some ''Ann'', g_given_name = Some ''Ann'', g_picture = None\<rparr>"

definition ann_payload :: google_user where
  "ann_payload = \<lparr>g_email = Some ''ann@example.com'', g_sub = Some ''g-1'',
                  g_name = Some ''Ann'', g_given_name = None, g_picture = Some ''ann.png''\<rparr>"

definition env0 :: env where
  "env0 = \<lparr>now = 1000000, JWT_SECRET = ''k'', JWT_ACCESS_EXPIRES = 900,
           JWT_REFRESH_EXPIRES = 604800, randomHex = ''5f2a'', salt = ''s2'',
           newUserId = ''u2'',
           isEmail = (\<lambda>s. s = ''ann@example.com'' \<or> s = ''bob@example.com''),
           sendMailThrows = False,
           verifyIdToken = (\<lambda>t. if t = Str ''id-bob'' then Some (Some id_payload)
                                 else if t = Str ''id-ann'' then Some (Some ann_payload)
                                 else None),
           userinfo = (\<lambda>t. if t = Str ''at-ann'' then Some userinfo_data else None)\<rparr>"

definition ann_token :: token where
  "ann_token = Jwt \<lparr>jwt_userId = ''u1'', jwt_type = ''refresh'', iat = 900, exp = 605700\<rparr> ''k''"

definition db0 :: db where
  "db0 = \<lparr>users = [ann],
          refreshTokens = [\<lparr>token = ann_token, userId = ''u1'', expiresAt = 605700000\<rparr>]\<rparr>"

section \<open>The password policy\<close>

text \<open>The lookahead tests find a character of the class anywhere in the password.\<close>

lemma dotstar_class_ex: "dotstar_class cls s \<Longrightarrow> list_ex cls s"
  by (induction s) auto

lemma lookahead_test_eq: "lookahead_test cls s = list_ex cls s"
  by (induction s) (auto dest: dotstar_class_ex)

lemmas class_defs = lower_class_def upper_class_def digit_class_def special_class_def

text \<open>
  Claim C8. For every password, \<open>isPasswordStrong\<close> is the first-failure evaluation of the
  five rules in the order length at least 8, a lowercase letter, an uppercase letter, a
  digit, a character of \<^verbatim>\<open>@$!%*?&\<close>; it answers valid exactly when all five hold; and it
  rejects the five sample passwords for the stated reason and accepts \<^verbatim>\<open>Valid123!\<close>.
\<close>

theorem isPasswordStrong_policy:
  "isPasswordStrong p = policy_spec p
   \<and> valid (isPasswordStrong p) =
       (8 \<le> length p \<and> list_ex lower_class p \<and> list_ex upper_class p
        \<and> list_ex digit_class p \<and> list_ex special_class p)
   \<and> isPasswordStrong (utf16 ''short1!'') =
       \<lparr>valid = False, message = Some ''Password must be at least 8 characters long''\<rparr>
   \<and> isPasswordStrong (utf16 ''alllower1!'') =
       \<lparr>valid = False, message = Some ''Password must contain at least one uppercase letter''\<rparr>
   \<and> isPasswordStrong (utf16 ''ALLUPPER1!'') =
       \<lparr>valid = False, message = Some ''Password must contain at least one lowercase letter''\<rparr>
   \<and> isPasswordStrong (utf16 ''NoDigits!!'') =
       \<lparr>valid = False, message = Some ''Password must contain at least one number''\<rparr>
   \<and> isPasswordStrong (utf16 ''NoSpecial1'') =
       \<lparr>valid = False, message = Some ''Password must contain at least one special character''\<rparr>
   \<and> isPasswordStrong (utf16 ''Valid123!'') = \<lparr>valid = True, message = None\<rparr>"
proof -
  have refines: "isPasswordStrong p = policy_spec p"
    by (simp add: isPasswordStrong_def policy_spec_def policy_rules_def lookahead_test_eq)
  have all_five: "valid (isPasswordStrong p) =
       (8 \<le> length p \<and> list_ex lower_class p \<and> list_ex upper_class p
        \<and> list_ex digit_class p \<and> list_ex special_class p)"
    by (simp add: isPasswordStrong_def lookahead_test_eq)
  have ex1: "isPasswordStrong (utf16 ''short1!'') =
       \<lparr>valid = False, message = Some ''Password must be at least 8 characters long''\<rparr>"
    by (simp add: isPasswordStrong_def utf16_def)
  have ex2: "isPasswordStrong (utf16 ''alllower1!'') =
       \<lparr>valid = False, message = Some ''Password must contain at least one uppercase letter''\<rparr>"
    by (simp add: isPasswordStrong_def utf16_def lookahead_test_eq class_defs)
  have ex3: "isPasswordStrong (utf16 ''ALLUPPER1!'') =
       \<lparr>valid = False, message = Some ''Password must contain at least one lowercase letter''\<rparr>"
    by (simp add: isPasswordStrong_def utf16_def lookahead_test_eq class_defs)
  have ex4: "isPasswordStrong (utf16 ''NoDigits!!'') =
       \<lparr>valid = False, message = Some ''Password must contain at least one number''\<rparr>"
    by (simp add: isPasswordStrong_def utf16_def lookahead_test_eq class_defs)
  have ex5: "isPasswordStrong (utf16 ''NoSpecial1'') =
       \<lparr>valid = False, message = Some ''Password must contain at least one special character''\<rparr>"
    by (simp add: isPasswordStrong_def utf16_def lookahead_test_eq class_defs)
  have ex6: "isPasswordStrong (utf16 ''Valid123!'') = \<lparr>valid = True, message = None\<rparr>"
    by (simp add: isPasswordStrong_def utf16_def lookahead_test_eq class_defs)
  from refines all_five ex1 ex2 ex3 ex4 ex5 ex6 show ?thesis by blast
qed

section \<open>The token codec\<close>

text \<open>
  Claim C2. An access token fails \<open>verifyRefreshToken\<close> and a refresh token fails
  \<open>verifyAccessToken\<close>, whoever it was issued for and whenever it is checked. A signed
  token verifies exactly when its signature is under the server's secret, its expiry has
  not elapsed and its type is the expected one, and then yields the user id in its
  payload; a value that is not a signed token never verifies; for a generated token the
  user id yielded is the one it was issued for.
\<close>

theorem token_kinds_not_interchangeable:
  "verifyRefreshToken e' (Str (generateAccessToken e u)) = Inl ''Invalid or expired refresh token''
   \<and> verifyAccessToken e' (Str (generateRefreshToken e u)) = Inl ''Invalid or expired token''
   \<and> verifyAccessToken e' (Str (Jwt p k)) =
       (if k = JWT_SECRET e' \<and> now e' div 1000 < exp p \<and> jwt_type p = ''access''
        then Inr (jwt_userId p) else Inl ''Invalid or expired token'')
   \<and> verifyRefreshToken e' (Str (Jwt p k)) =
       (if k = JWT_SECRET e' \<and> now e' div 1000 < exp p \<and> jwt_type p = ''refresh''
        then Inr (jwt_userId p) else Inl ''Invalid or expired refresh token'')
   \<and> verifyAccessToken e' (Str (Opaque s)) = Inl ''Invalid or expired token''
   \<and> verifyRefreshToken e' (Str (Opaque s)) = Inl ''Invalid or expired refresh token''
   \<and> verifyAccessToken e' (NonString b) = Inl ''Invalid or expired token''
   \<and> verifyRefreshToken e' (NonString b) = Inl ''Invalid or expired refresh token''
   \<and> verifyAccessToken e' (Str (generateAccessToken e u)) =
       (if JWT_SECRET e = JWT_SECRET e' \<and> now e' div 1000 < now e div 1000 + JWT_ACCESS_EXPIRES e
        then Inr u else Inl ''Invalid or expired token'')
   \<and> verifyRefreshToken e' (Str (generateRefreshToken e u)) =
       (if JWT_SECRET e = JWT_SECRET e' \<and> now e' div 1000 < now e div 1000 + JWT_REFRESH_EXPIRES e
        then Inr u else Inl ''Invalid or expired refresh token'')"
  by (simp add: verifyRefreshToken_def verifyAccessToken_def generateAccessToken_def
        generateRefreshToken_def jwt_sign_def)

section \<open>Refreshing an access token\<close>

lemma find_SomeD': "find P xs = Some x \<Longrightarrow> x \<in> set xs \<and> P x"
  by (induction xs) (auto split: if_splits)

lemma refreshToken_unauthorized_or_ok:
  "status (fst (refreshToken e d rt)) = 200 \<or> status (fst (refreshToken e d rt)) = 401"
  by (simp add: refreshToken_def Let_def split: sum.splits option.splits)

lemma refreshToken_ok_row:
  assumes ok: "status (fst (refreshToken e d rt)) = 200"
  shows "\<exists>u r. verifyRefreshToken e rt = Inr u \<and> r \<in> set (refreshTokens d)
           \<and> Str (token r) = rt \<and> userId r = u \<and> now e < expiresAt r
           \<and> fst (refreshToken e d rt) =
               \<lparr>status = 200,
                body = AccessTokenUser (generateAccessToken e u) (include_user d r)\<rparr>"
proof -
  from ok have t: "truthy_token rt"
    by (auto simp: refreshToken_def split: if_splits)
  from ok t obtain u where u: "verifyRefreshToken e rt = Inr u"
    by (cases "verifyRefreshToken e rt") (auto simp: refreshToken_def)
  from ok t u obtain r where
    r: "find (\<lambda>r. Str (token r) = rt \<and> userId r = u \<and> now e < expiresAt r)
          (refreshTokens d) = Some r"
    by (auto simp: refreshToken_def split: option.splits)
  from r have "r \<in> set (refreshTokens d) \<and> Str (token r) = rt \<and> userId r = u
      \<and> now e < expiresAt r"
    by (rule find_SomeD')
  with t u r show ?thesis
    by (auto simp: refreshToken_def)
qed

text \<open>
  Claim C3. A refresh-token request leaves the store as it found it, whether it succeeds
  or fails. When it succeeds, the token verified as a refresh token for a user \<open>u\<close>, an
  unexpired row holds that very token for \<open>u\<close>, and the answer carries a newly generated
  access token for \<open>u\<close> with the snapshot of that row's user.
\<close>

theorem refreshToken_leaves_store:
  "snd (refreshToken e d rt) = d
   \<and> (status (fst (refreshToken e d rt)) = 200 \<longrightarrow>
        (\<exists>u r. verifyRefreshToken e rt = Inr u \<and> r \<in> set (refreshTokens d)
           \<and> Str (token r) = rt \<and> userId r = u \<and> now e < expiresAt r
           \<and> fst (refreshToken e d rt) =
               \<lparr>status = 200,
                body = AccessTokenUser (generateAccessToken e u) (include_user d r)\<rparr>))"
proof -
  have "snd (refreshToken e d rt) = d"
    by (simp add: refreshToken_def Let_def split: sum.splits option.splits)
  with refreshToken_ok_row [of e d rt] show ?thesis by blast
qed

theorem refreshToken_leaves_store_witness:
  "status (fst (refreshToken env0 db0 (Str ann_token))) = 200
   \<and> snd (refreshToken env0 db0 (Str ann_token)) = db0
   \<and> fst (refreshToken env0 db0 (Str ann_token)) =
       \<lparr>status = 200,
        body = AccessTokenUser (generateAccessToken env0 ''u1'')
                 (Some (Selected ''u1'' ''ann@example.com'' ''Ann'' False))\<rparr>"
  using refreshToken_leaves_store [of env0 db0 "Str ann_token"]
  by (simp add: refreshToken_def verifyRefreshToken_def env0_def db0_def ann_token_def
        include_user_def ann_def generateAccessToken_def)

section \<open>Login\<close>

text \<open>
  Claim C4. When a login request parses, its email finds a user with a password hash, the
  password matches the hash and the user is not verified, the answer is 401 with the code
  \<^verbatim>\<open>EMAIL_NOT_VERIFIED\<close>; it carries no token, and the store, so also the table of
  refresh tokens, is unchanged.
\<close>

theorem login_unverified_rejected:
  assumes "loginSchema e email_f password_f = Inr (em, pw)"
    and "findUniqueEmail d em = Some u"
    and "password u = Some h"
    and "comparePassword pw h"
    and "\<not> isVerified u"
  shows "login e d email_f password_f =
           (\<lparr>status = 401,
             body = ErrorCode ''Please verify your email address before logging in''
                      ''EMAIL_NOT_VERIFIED''\<rparr>, d)"
  using assms by (simp add: login_def)

theorem login_unverified_rejected_witness:
  "loginSchema env0 (Str ''ann@example.com'') (Str (utf16 ''Valid123!''))
     = Inr (''ann@example.com'', utf16 ''Valid123!'')
   \<and> findUniqueEmail db0 ''ann@example.com'' = Some ann
   \<and> password ann = Some (Bcrypt ''s1'' (utf16 ''Valid123!''))
   \<and> comparePassword (utf16 ''Valid123!'') (Bcrypt ''s1'' (utf16 ''Valid123!''))
   \<and> \<not> isVerified ann
   \<and> login env0 db0 (Str ''ann@example.com'') (Str (utf16 ''Valid123!'')) =
           (\<lparr>status = 401,
             body = ErrorCode ''Please verify your email address before logging in''
                      ''EMAIL_NOT_VERIFIED''\<rparr>, db0)"
proof -
  have 1: "loginSchema env0 (Str ''ann@example.com'') (Str (utf16 ''Valid123!''))
     = Inr (''ann@example.com'', utf16 ''Valid123!'')"
    by (simp add: loginSchema_def z_email_def z_min_def env0_def utf16_def)
  have 2: "findUniqueEmail db0 ''ann@example.com'' = Some ann"
    by (simp add: findUniqueEmail_def db0_def ann_def)
  have 3: "password ann = Some (Bcrypt ''s1'' (utf16 ''Valid123!''))"
    by (simp add: ann_def)
  have 4: "comparePassword (utf16 ''Valid123!'') (Bcrypt ''s1'' (utf16 ''Valid123!''))"
    by simp
  have 5: "\<not> isVerified ann"
    by (simp add: ann_def)
  from login_unverified_rejected [OF 1 2 3 4 5] 1 2 3 4 5 show ?thesis by blast
qed

text \<open>Changing only \<open>isVerified\<close> does not change which user an email finds.\<close>

lemma find_map_same:
  assumes "\<And>x. P (g x) = P x"
  shows "find P (map g xs) = map_option g (find P xs)"
  using assms by (induction xs) auto

lemma findUniqueEmail_set_verified:
  "findUniqueEmail (user_update d i (\<lambda>v. v\<lparr>isVerified := b\<rparr>)) em =
     map_option (\<lambda>u. if uid u = i then u\<lparr>isVerified := b\<rparr> else u) (findUniqueEmail d em)"
  unfolding findUniqueEmail_def user_update_def
  by (simp add: find_map_same)

text \<open>
  Claim C10. When a login request parses and its password does not match the hash of the
  user its email finds, the answer is 401 with the message \<^verbatim>\<open>Invalid email or password\<close>
  and the store is unchanged; the answer is the same whatever the \<open>isVerified\<close> flag of
  that user is set to. The password is compared before the flag is read.
\<close>

theorem login_wrong_password_generic:
  assumes "loginSchema e email_f password_f = Inr (em, pw)"
    and "findUniqueEmail d em = Some u"
    and "password u = Some h"
    and "\<not> comparePassword pw h"
  shows "login e d email_f password_f =
           (\<lparr>status = 401, body = Error ''Invalid email or password''\<rparr>, d)
         \<and> (\<forall>b. fst (login e (user_update d (uid u) (\<lambda>v. v\<lparr>isVerified := b\<rparr>))
                        email_f password_f) =
                  \<lparr>status = 401, body = Error ''Invalid email or password''\<rparr>)"
  using assms by (simp add: login_def findUniqueEmail_set_verified)

theorem login_wrong_password_generic_witness:
  "loginSchema env0 (Str ''ann@example.com'') (Str (utf16 ''Wrong123!''))
     = Inr (''ann@example.com'', utf16 ''Wrong123!'')
   \<and> findUniqueEmail db0 ''ann@example.com'' = Some ann
   \<and> password ann = Some (Bcrypt ''s1'' (utf16 ''Valid123!''))
   \<and> \<not> comparePassword (utf16 ''Wrong123!'') (Bcrypt ''s1'' (utf16 ''Valid123!''))
   \<and> login env0 db0 (Str ''ann@example.com'') (Str (utf16 ''Wrong123!'')) =
           (\<lparr>status = 401, body = Error ''Invalid email or password''\<rparr>, db0)
   \<and> fst (login env0 (user_update db0 ''u1'' (\<lambda>v. v\<lparr>isVerified := True\<rparr>))
             (Str ''ann@example.com'') (Str (utf16 ''Wrong123!''))) =
           \<lparr>status = 401, body = Error ''Invalid email or password''\<rparr>"
proof -
  have 1: "loginSchema env0 (Str ''ann@example.com'') (Str (utf16 ''Wrong123!''))
     = Inr (''ann@example.com'', utf16 ''Wrong123!'')"
    by (simp add: loginSchema_def z_email_def z_min_def env0_def utf16_def)
  have 2: "findUniqueEmail db0 ''ann@example.com'' = Some ann"
    by (simp add: findUniqueEmail_def db0_def ann_def)
  have 3: "password ann = Some (Bcrypt ''s1'' (utf16 ''Valid123!''))"
    by (simp add: ann_def)
  have 4: "\<not> comparePassword (utf16 ''Wrong123!'') (Bcrypt ''s1'' (utf16 ''Valid123!''))"
    by (simp add: utf16_def)
  have 5: "uid ann = ''u1''"
    by (simp add: ann_def)
  from login_wrong_password_generic [OF 1 2 3 4] 1 2 3 4 5 show ?thesis by auto
qed

text \<open>
  Conversely, an answer that carries a code was given to a request whose password matches
  the hash of an unverified user.
\<close>

lemma login_code_needs_password:
  assumes "body (fst (login e d email_f password_f)) = ErrorCode m c"
  shows "\<exists>em pw u h. loginSchema e email_f password_f = Inr (em, pw)
           \<and> findUniqueEmail d em = Some u \<and> password u = Some h
           \<and> comparePassword pw h \<and> \<not> isVerified u"
  using assms
  by (auto simp: login_def zod_response_def Let_def
           split: sum.splits option.splits if_splits zod_issue.splits prod.splits)

section \<open>Signup\<close>

text \<open>
  Claim C5, as stated, fails: a signup request that passes shape validation for an email
  that is already registered, with a password of ten lowercase letters, digits and marks,
  is answered with the 400 of the password policy, not with 409. The policy is checked
  before the email is looked up.
\<close>

theorem signup_policy_before_conflict:
  "signupSchema env0 (Str ''ann@example.com'') (Str (utf16 ''alllower1!'')) (Str ''Ann'')
     = Inr (''ann@example.com'', utf16 ''alllower1!'', ''Ann'')
   \<and> findUniqueEmail db0 ''ann@example.com'' = Some ann
   \<and> signup env0 db0 (Str ''ann@example.com'') (Str (utf16 ''alllower1!'')) (Str ''Ann'') =
       (\<lparr>status = 400,
         body = Error ''Password must contain at least one uppercase letter''\<rparr>, db0)"
proof -
  have 1: "signupSchema env0 (Str ''ann@example.com'') (Str (utf16 ''alllower1!'')) (Str ''Ann'')
     = Inr (''ann@example.com'', utf16 ''alllower1!'', ''Ann'')"
    by (simp add: signupSchema_def z_email_def z_min_def env0_def utf16_def)
  have 2: "findUniqueEmail db0 ''ann@example.com'' = Some ann"
    by (simp add: findUniqueEmail_def db0_def ann_def)
  have 3: "isPasswordStrong (utf16 ''alllower1!'') =
       \<lparr>valid = False, message = Some ''Password must contain at least one uppercase letter''\<rparr>"
    by (simp add: isPasswordStrong_def utf16_def lookahead_test_eq class_defs)
  show ?thesis
    by (simp add: 1 2 signup_def 3 policy_error_def)
qed

text \<open>
  Claim C5, amended. A signup request that passes shape validation and whose email is
  already registered leaves the store unchanged; it is answered with 409 when its password
  passes the password policy, and with the 400 of the policy otherwise.
\<close>

theorem signup_registered_email:
  assumes "signupSchema e email_f password_f name_f = Inr (em, pw, nm)"
    and "findUniqueEmail d em = Some u"
  shows "signup e d email_f password_f name_f =
           (if valid (isPasswordStrong pw)
            then \<lparr>status = 409, body = Error ''User already exists with this email''\<rparr>
            else policy_error (isPasswordStrong pw), d)"
  using assms by (simp add: signup_def)

theorem signup_registered_email_witness:
  "signupSchema env0 (Str ''ann@example.com'') (Str (utf16 ''Valid123!'')) (Str ''Ann'')
     = Inr (''ann@example.com'', utf16 ''Valid123!'', ''Ann'')
   \<and> findUniqueEmail db0 ''ann@example.com'' = Some ann
   \<and> signup env0 db0 (Str ''ann@example.com'') (Str (utf16 ''Valid123!'')) (Str ''Ann'') =
       (\<lparr>status = 409, body = Error ''User already exists with this email''\<rparr>, db0)"
proof -
  have 1: "signupSchema env0 (Str ''ann@example.com'') (Str (utf16 ''Valid123!'')) (Str ''Ann'')
     = Inr (''ann@example.com'', utf16 ''Valid123!'', ''Ann'')"
    by (simp add: signupSchema_def z_email_def z_min_def env0_def utf16_def)
  have 2: "findUniqueEmail db0 ''ann@example.com'' = Some ann"
    by (simp add: findUniqueEmail_def db0_def ann_def)
  have 3: "valid (isPasswordStrong (utf16 ''Valid123!''))"
    by (simp add: isPasswordStrong_def utf16_def lookahead_test_eq class_defs)
  from signup_registered_email [OF 1 2] 1 2 3 show ?thesis by simp
qed

section \<open>Failures of the mail transport\<close>

text \<open>Signup and reset-password answer and write the same whether or not the mail fails.\<close>

lemma signup_mail_swallowed:
  "signup (e\<lparr>sendMailThrows := b\<rparr>) d email_f password_f name_f
     = signup e d email_f password_f name_f"
proof -
  have "signupSchema (e\<lparr>sendMailThrows := b\<rparr>) email_f password_f name_f
          = signupSchema e email_f password_f name_f"
    by (simp add: signupSchema_def z_email_def split: field.splits)
  then show ?thesis
    by (simp add: signup_def Let_def split: sum.splits prod.splits option.splits)
qed

lemma resetPassword_mail_swallowed:
  "resetPassword (e\<lparr>sendMailThrows := b\<rparr>) d token_f password_f
     = resetPassword e d token_f password_f"
  by (simp add: resetPassword_def Let_def split: sum.splits prod.splits option.splits)

text \<open>
  Claim C6 does not hold of forgot-password and resend-verification: for the registered,
  unverified account of the sample store, each writes its new token and then answers 500
  when the mail transport rejects, and 200 when it accepts.
\<close>

theorem mail_failure_becomes_500:
  "forgotPassword (env0\<lparr>sendMailThrows := True\<rparr>) db0 (Str ''ann@example.com'') =
     (\<lparr>status = 500, body = Error ''Internal server error''\<rparr>,
      db0\<lparr>users := [ann\<lparr>resetPasswordToken := Some ''5f2a'',
                         resetPasswordExpires := Some 4600000\<rparr>]\<rparr>)
   \<and> forgotPassword (env0\<lparr>sendMailThrows := False\<rparr>) db0 (Str ''ann@example.com'') =
     (\<lparr>status = 200,
       body = Message
         ''If an account with that email exists, we have sent a password reset link.''\<rparr>,
      db0\<lparr>users := [ann\<lparr>resetPasswordToken := Some ''5f2a'',
                         resetPasswordExpires := Some 4600000\<rparr>]\<rparr>)
   \<and> resendVerification (env0\<lparr>sendMailThrows := True\<rparr>) db0 (Str ''ann@example.com'') =
     (\<lparr>status = 500, body = Error ''Internal server error''\<rparr>,
      db0\<lparr>users := [ann\<lparr>verificationToken := Some ''5f2a'',
                         verificationExpires := Some 87400000\<rparr>]\<rparr>)
   \<and> resendVerification (env0\<lparr>sendMailThrows := False\<rparr>) db0 (Str ''ann@example.com'') =
     (\<lparr>status = 200, body = Message ''Verification email sent successfully''\<rparr>,
      db0\<lparr>users := [ann\<lparr>verificationToken := Some ''5f2a'',
                         verificationExpires := Some 87400000\<rparr>]\<rparr>)"
proof -
  have 1: "findUniqueEmail db0 ''ann@example.com'' = Some ann"
    by (simp add: findUniqueEmail_def db0_def ann_def)
  have 2: "forgotPasswordSchema (env0\<lparr>sendMailThrows := b\<rparr>) (Str ''ann@example.com'')
             = Inr ''ann@example.com''" for b
    by (simp add: forgotPasswordSchema_def z_email_def env0_def)
  have 3: "uid ann = ''u1''" "\<not> isVerified ann"
    by (simp_all add: ann_def)
  have 4: "users db0 = [ann]"
    by (simp add: db0_def)
  have 5: "now (env0\<lparr>sendMailThrows := b\<rparr>) = 1000000"
          "randomHex (env0\<lparr>sendMailThrows := b\<rparr>) = ''5f2a''" for b
    by (simp_all add: env0_def)
  show ?thesis
    by (simp add: forgotPassword_def resendVerification_def 1 2 3 4 5 user_update_def
          internal_error_def day_def)
qed

section \<open>Forgot password\<close>

text \<open>
  Claim C7 does not hold while the mail transport rejects: of two well-formed addresses,
  forgot-password answers 500 for the registered one and the generic 200 for the other.
\<close>

theorem forgotPassword_reveals_account:
  "isEmail (env0\<lparr>sendMailThrows := True\<rparr>) ''ann@example.com''
   \<and> isEmail (env0\<lparr>sendMailThrows := True\<rparr>) ''bob@example.com''
   \<and> findUniqueEmail db0 ''ann@example.com'' = Some ann
   \<and> findUniqueEmail db0 ''bob@example.com'' = None
   \<and> fst (forgotPassword (env0\<lparr>sendMailThrows := True\<rparr>) db0 (Str ''ann@example.com'')) =
       \<lparr>status = 500, body = Error ''Internal server error''\<rparr>
   \<and> fst (forgotPassword (env0\<lparr>sendMailThrows := True\<rparr>) db0 (Str ''bob@example.com'')) =
       \<lparr>status = 200,
        body = Message
          ''If an account with that email exists, we have sent a password reset link.''\<rparr>"
proof -
  have 1: "findUniqueEmail db0 ''ann@example.com'' = Some ann"
    by (simp add: findUniqueEmail_def db0_def ann_def)
  have 2: "findUniqueEmail db0 ''bob@example.com'' = None"
    by (simp add: findUniqueEmail_def db0_def ann_def)
  have 3: "isEmail env0 ''ann@example.com''" "isEmail env0 ''bob@example.com''"
    by (simp_all add: env0_def)
  have 4: "sendMailThrows (env0\<lparr>sendMailThrows := True\<rparr>)"
    by simp
  show ?thesis
    by (simp add: forgotPassword_def forgotPasswordSchema_def z_email_def 1 2 3 4
          internal_error_def Let_def)
qed

text \<open>While the mail transport accepts, every well-formed address gets the generic 200.\<close>

lemma forgotPassword_same_when_mail_sent:
  assumes "forgotPasswordSchema e email_f = Inr em" and "\<not> sendMailThrows e"
  shows "fst (forgotPassword e d email_f) =
           \<lparr>status = 200,
            body = Message
              ''If an account with that email exists, we have sent a password reset link.''\<rparr>"
  using assms by (simp add: forgotPassword_def Let_def split: option.splits)

section \<open>Reset password\<close>

lemma refreshToken_needs_row:
  assumes "status (fst (refreshToken e d (Str (Jwt p k)))) \<noteq> 401"
  shows "\<exists>r \<in> set (refreshTokens d). userId r = jwt_userId p"
proof -
  from assms refreshToken_unauthorized_or_ok [of e d "Str (Jwt p k)"]
  have "status (fst (refreshToken e d (Str (Jwt p k)))) = 200" by blast
  from refreshToken_ok_row [OF this]
  obtain u r where "verifyRefreshToken e (Str (Jwt p k)) = Inr u"
    "r \<in> set (refreshTokens d)" "userId r = u"
    by blast
  then show ?thesis
    by (auto simp: verifyRefreshToken_def split: sum.splits if_splits)
qed

lemma refreshToken_opaque: "status (fst (refreshToken e d (Str (Opaque s)))) = 401"
  by (simp add: refreshToken_def verifyRefreshToken_def)

lemma resetPassword_success:
  assumes "resetPasswordSchema token_f password_f = Inr (tok, pw)"
    and "valid (isPasswordStrong pw)"
    and "find (\<lambda>u. resetPasswordToken u = Some tok \<and> gt_now (resetPasswordExpires u) (now e))
           (users d) = Some u"
  shows "resetPassword e d token_f password_f =
           (\<lparr>status = 200, body = Message ''Password reset successfully''\<rparr>,
            refreshToken_deleteMany
              (user_update d (uid u)
                 (\<lambda>v. v\<lparr>password := Some (hashPassword (salt e) pw),
                         resetPasswordToken := None, resetPasswordExpires := None\<rparr>))
              (\<lambda>r. userId r = uid u))"
  using assms by (simp add: resetPassword_def Let_def)

text \<open>
  Claim C1. When a reset-password request parses, its password passes the policy and a
  user holds its token with an expiry in the future, the answer is the 200 of a
  successful reset; the record of that user is stored with the hash of the new password
  and with the reset token and its expiry cleared, as is every record with that id; the
  refresh-token rows left are exactly the rows of other users; and, in a store whose rows
  were signed for their owners, a refresh-token request made afterwards, at any time,
  with the token of a row that user had before the reset is answered with 401.
\<close>

theorem resetPassword_revokes_refresh_tokens:
  assumes parse: "resetPasswordSchema token_f password_f = Inr (tok, pw)"
    and strong: "valid (isPasswordStrong pw)"
    and found: "find (\<lambda>u. resetPasswordToken u = Some tok
                           \<and> gt_now (resetPasswordExpires u) (now e)) (users d) = Some u"
  shows "fst (resetPassword e d token_f password_f) =
           \<lparr>status = 200, body = Message ''Password reset successfully''\<rparr>
       \<and> u\<lparr>password := Some (hashPassword (salt e) pw), resetPasswordToken := None,
            resetPasswordExpires := None\<rparr>
           \<in> set (users (snd (resetPassword e d token_f password_f)))
       \<and> (\<forall>v \<in> set (users (snd (resetPassword e d token_f password_f))).
             uid v = uid u \<longrightarrow>
               password v = Some (hashPassword (salt e) pw)
               \<and> resetPasswordToken v = None \<and> resetPasswordExpires v = None)
       \<and> refreshTokens (snd (resetPassword e d token_f password_f)) =
           filter (\<lambda>r. userId r \<noteq> uid u) (refreshTokens d)
       \<and> (rows_signed_for_owner d \<longrightarrow>
            (\<forall>e' r. r \<in> set (refreshTokens d) \<and> userId r = uid u \<longrightarrow>
               status (fst (refreshToken e' (snd (resetPassword e d token_f password_f))
                              (Str (token r)))) = 401))"
proof -
  let ?d' = "snd (resetPassword e d token_f password_f)"
  note eq = resetPassword_success [OF parse strong found]
  have resp: "fst (resetPassword e d token_f password_f) =
           \<lparr>status = 200, body = Message ''Password reset successfully''\<rparr>"
    by (simp add: eq)
  have us: "users ?d' =
      map (\<lambda>v. if uid v = uid u
                then v\<lparr>password := Some (hashPassword (salt e) pw),
                       resetPasswordToken := None, resetPasswordExpires := None\<rparr>
                else v) (users d)"
    by (simp add: eq refreshToken_deleteMany_def user_update_def)
  have rows: "refreshTokens ?d' = filter (\<lambda>r. userId r \<noteq> uid u) (refreshTokens d)"
    by (simp add: eq refreshToken_deleteMany_def user_update_def)
  from found have "u \<in> set (users d)"
    by (auto dest: find_SomeD')
  then have stored: "u\<lparr>password := Some (hashPassword (salt e) pw), resetPasswordToken := None,
            resetPasswordExpires := None\<rparr> \<in> set (users ?d')"
    unfolding us by (auto simp: image_iff intro!: bexI [of _ u])
  have fields: "\<forall>v \<in> set (users ?d'). uid v = uid u \<longrightarrow>
               password v = Some (hashPassword (salt e) pw)
               \<and> resetPasswordToken v = None \<and> resetPasswordExpires v = None"
    unfolding us by auto
  have later: "status (fst (refreshToken e' ?d' (Str (token r)))) = 401"
    if inv: "rows_signed_for_owner d" and r: "r \<in> set (refreshTokens d)"
      and own: "userId r = uid u" for e' r
  proof (cases "token r")
    case (Opaque s)
    then show ?thesis by (simp add: refreshToken_opaque)
  next
    case (Jwt p k)
    from inv r have "token_names (token r) (userId r)"
      by (simp add: rows_signed_for_owner_def list_all_iff)
    with Jwt own have sub: "jwt_userId p = uid u" by simp
    show ?thesis
    proof (rule ccontr)
      assume "status (fst (refreshToken e' ?d' (Str (token r)))) \<noteq> 401"
      with Jwt have "\<exists>r' \<in> set (refreshTokens ?d'). userId r' = jwt_userId p"
        by (auto dest: refreshToken_needs_row)
      with sub rows show False by auto
    qed
  qed
  from resp stored fields rows later show ?thesis by blast
qed

theorem resetPassword_revokes_refresh_tokens_witness:
  "resetPasswordSchema (Str ''r1'') (Str (utf16 ''Valid123!'')) = Inr (''r1'', utf16 ''Valid123!'')
   \<and> valid (isPasswordStrong (utf16 ''Valid123!''))
   \<and> find (\<lambda>u. resetPasswordToken u = Some ''r1''
                 \<and> gt_now (resetPasswordExpires u) (now env0)) (users db0) = Some ann
   \<and> rows_signed_for_owner db0
   \<and> fst (resetPassword env0 db0 (Str ''r1'') (Str (utf16 ''Valid123!''))) =
           \<lparr>status = 200, body = Message ''Password reset successfully''\<rparr>
   \<and> refreshTokens (snd (resetPassword env0 db0 (Str ''r1'') (Str (utf16 ''Valid123!'')))) = []
   \<and> status (fst (refreshToken env0 db0 (Str ann_token))) = 200
   \<and> status (fst (refreshToken env0
                     (snd (resetPassword env0 db0 (Str ''r1'') (Str (utf16 ''Valid123!''))))
                     (Str ann_token))) = 401"
proof -
  have 1: "resetPasswordSchema (Str ''r1'') (Str (utf16 ''Valid123!''))
             = Inr (''r1'', utf16 ''Valid123!'')"
    by (simp add: resetPasswordSchema_def z_min_def utf16_def)
  have 2: "valid (isPasswordStrong (utf16 ''Valid123!''))"
    by (simp add: isPasswordStrong_def utf16_def lookahead_test_eq class_defs)
  have 3: "find (\<lambda>u. resetPasswordToken u = Some ''r1''
                 \<and> gt_now (resetPasswordExpires u) (now env0)) (users db0) = Some ann"
    by (simp add: db0_def ann_def env0_def gt_now_def)
  have 4: "rows_signed_for_owner db0"
    by (simp add: rows_signed_for_owner_def db0_def ann_token_def)
  have 5: "refreshTokens db0 = [\<lparr>token = ann_token, userId = ''u1'', expiresAt = 605700000\<rparr>]"
    "uid ann = ''u1''"
    by (simp_all add: db0_def ann_def)
  have 6: "status (fst (refreshToken env0 db0 (Str ann_token))) = 200"
    by (simp add: refreshToken_def verifyRefreshToken_def env0_def db0_def ann_token_def)
  from resetPassword_revokes_refresh_tokens [OF 1 2 3] 1 2 3 4 5 6 show ?thesis
    by simp
qed

section \<open>Google sign-in\<close>

text \<open>The handler, once the token has resolved to a payload with an email.\<close>

lemma googleAuth_resolved:
  assumes "truthy_string token_f"
    and "google_verify e token_f = Some (Some g)"
    and "g_email g = Some em" and "em \<noteq> []"
  shows "googleAuth e d token_f =
     (case findUniqueEmail d em of
        Some user \<Rightarrow>
          if \<not> truthy (googleId user) \<and> truthy (g_sub g) then
            (case google_update d user g of
               None \<Rightarrow> (internal_error, d)
             | Some (user', d') \<Rightarrow> google_issue e d' user')
          else google_issue e d user
      | None \<Rightarrow>
          (case user_create d
                  \<lparr>uid = newUserId e, email = em, name = google_name g, password = None,
                   isVerified = True, verificationToken = None, verificationExpires = None,
                   resetPasswordToken = None, resetPasswordExpires = None,
                   googleId = g_sub g, picture = g_picture g\<rparr> of
             None \<Rightarrow> (internal_error, d)
           | Some d' \<Rightarrow>
               google_issue e d'
                 \<lparr>uid = newUserId e, email = em, name = google_name g, password = None,
                  isVerified = True, verificationToken = None, verificationExpires = None,
                  resetPasswordToken = None, resetPasswordExpires = None,
                  googleId = g_sub g, picture = g_picture g\<rparr>))"
  using assms by (simp add: googleAuth_def Let_def split: option.splits)

lemma google_issue_fst:
  "fst (google_issue e d x) =
     \<lparr>status = 200,
      body = MessageUserTokens ''Google authentication successful''
               (WithPicture (uid x) (email x) (name x) (picture x) (isVerified x))
               (generateAccessToken e (uid x)) (generateRefreshToken e (uid x))\<rparr>"
  by (simp add: google_issue_def Let_def)

lemma google_issue_snd:
  "snd (google_issue e d x) =
     d\<lparr>refreshTokens := refreshTokens d @
         [\<lparr>token = generateRefreshToken e (uid x), userId = uid x,
           expiresAt = now e + 7 * day\<rparr>]\<rparr>"
  by (simp add: google_issue_def Let_def refreshToken_create_def)

text \<open>
  Claim C9 does not hold on the path through the userinfo endpoint. A token that Google
  resolves there to an email and no \<^verbatim>\<open>sub\<close>, for a registered, unverified account
  without a googleId, is answered with 200 and a token pair, and a refresh-token row is
  stored; the record keeps its googleId unset and stays unverified, so that
  \<open>authMiddleware\<close> turns down the access token just issued. The same token for an email
  nobody has registered creates a verified user.
\<close>

theorem googleAuth_no_backfill_without_sub:
  "truthy_string (Str ''at-ann'')
   \<and> google_verify env0 (Str ''at-ann'') = Some (Some userinfo_data)
   \<and> g_email userinfo_data = Some ''ann@example.com''
   \<and> g_sub userinfo_data = None
   \<and> findUniqueEmail db0 ''ann@example.com'' = Some ann
   \<and> googleId ann = None
   \<and> \<not> isVerified ann
   \<and> googleAuth env0 db0 (Str ''at-ann'') =
       (\<lparr>status = 200,
         body = MessageUserTokens ''Google authentication successful''
                  (WithPicture ''u1'' ''ann@example.com'' ''Ann'' None False)
                  (generateAccessToken env0 ''u1'') (generateRefreshToken env0 ''u1'')\<rparr>,
        \<lparr>users = [ann],
         refreshTokens =
           [\<lparr>token = ann_token, userId = ''u1'', expiresAt = 605700000\<rparr>,
            \<lparr>token = generateRefreshToken env0 ''u1'', userId = ''u1'',
             expiresAt = 605800000\<rparr>]\<rparr>)
   \<and> authMiddleware env0 (snd (googleAuth env0 db0 (Str ''at-ann'')))
         (Some (generateAccessToken env0 ''u1'')) =
       Inl \<lparr>status = 401, body = Error ''Invalid token or user not found''\<rparr>
   \<and> users (snd (googleAuth env0 \<lparr>users = [], refreshTokens = []\<rparr> (Str ''at-ann''))) =
       [\<lparr>uid = ''u2'', email = ''ann@example.com'', name = ''Ann'', password = None,
         isVerified = True, verificationToken = None, verificationExpires = None,
         resetPasswordToken = None, resetPasswordExpires = None, googleId = None,
         picture = None\<rparr>]"
proof -
  have 1: "google_verify env0 (Str ''at-ann'') = Some (Some userinfo_data)"
    by (simp add: google_verify_def env0_def)
  have 2: "g_email userinfo_data = Some ''ann@example.com''" "g_sub userinfo_data = None"
    "g_picture userinfo_data = None" "google_name userinfo_data = ''Ann''"
    by (simp_all add: userinfo_data_def google_name_def)
  have 3: "findUniqueEmail db0 ''ann@example.com'' = Some ann"
    by (simp add: findUniqueEmail_def db0_def ann_def)
  have 4: "googleId ann = None" "\<not> isVerified ann" "uid ann = ''u1''"
    "email ann = ''ann@example.com''" "name ann = ''Ann''" "picture ann = None"
    by (simp_all add: ann_def)
  have 5: "now env0 = 1000000" "newUserId env0 = ''u2''"
    by (simp_all add: env0_def)
  have run: "googleAuth env0 db0 (Str ''at-ann'') =
       (\<lparr>status = 200,
         body = MessageUserTokens ''Google authentication successful''
                  (WithPicture ''u1'' ''ann@example.com'' ''Ann'' None False)
                  (generateAccessToken env0 ''u1'') (generateRefreshToken env0 ''u1'')\<rparr>,
        \<lparr>users = [ann],
         refreshTokens =
           [\<lparr>token = ann_token, userId = ''u1'', expiresAt = 605700000\<rparr>,
            \<lparr>token = generateRefreshToken env0 ''u1'', userId = ''u1'',
             expiresAt = 605800000\<rparr>]\<rparr>)"
  proof -
    have "googleAuth env0 db0 (Str ''at-ann'') = google_issue env0 db0 ann"
      by (simp add: googleAuth_resolved [OF _ 1 2(1)] 2 3 4)
    also have "\<dots> =
       (\<lparr>status = 200,
         body = MessageUserTokens ''Google authentication successful''
                  (WithPicture ''u1'' ''ann@example.com'' ''Ann'' None False)
                  (generateAccessToken env0 ''u1'') (generateRefreshToken env0 ''u1'')\<rparr>,
        \<lparr>users = [ann],
         refreshTokens =
           [\<lparr>token = ann_token, userId = ''u1'', expiresAt = 605700000\<rparr>,
            \<lparr>token = generateRefreshToken env0 ''u1'', userId = ''u1'',
             expiresAt = 605800000\<rparr>]\<rparr>)"
      by (simp add: google_issue_def refreshToken_create_def Let_def 4 5 day_def db0_def)
    finally show ?thesis .
  qed
  have access: "verifyAccessToken env0 (Str (generateAccessToken env0 ''u1'')) = Inr ''u1''"
    by (simp add: verifyAccessToken_def generateAccessToken_def jwt_sign_def env0_def)
  have mw: "authMiddleware env0 (snd (googleAuth env0 db0 (Str ''at-ann'')))
         (Some (generateAccessToken env0 ''u1'')) =
       Inl \<lparr>status = 401, body = Error ''Invalid token or user not found''\<rparr>"
    by (simp add: run authMiddleware_def access 4)
  have none: "findUniqueEmail \<lparr>users = [], refreshTokens = []\<rparr> ''ann@example.com'' = None"
    by (simp add: findUniqueEmail_def)
  have fresh: "users (snd (googleAuth env0 \<lparr>users = [], refreshTokens = []\<rparr> (Str ''at-ann''))) =
       [\<lparr>uid = ''u2'', email = ''ann@example.com'', name = ''Ann'', password = None,
         isVerified = True, verificationToken = None, verificationExpires = None,
         resetPasswordToken = None, resetPasswordExpires = None, googleId = None,
         picture = None\<rparr>]"
    by (simp add: googleAuth_resolved [OF _ 1 2(1)] 2 5 none user_create_def google_issue_snd)
  from 1 2 3 4 run mw fresh show ?thesis by simp
qed

lemma findUniqueEmail_backfill:
  "findUniqueEmail (user_update d i (google_backfill g)) em =
     map_option (\<lambda>u. if uid u = i then google_backfill g u else u) (findUniqueEmail d em)"
  unfolding findUniqueEmail_def user_update_def
  by (simp add: find_map_same google_backfill_def)

text \<open>
  Where the payload carries a \<^verbatim>\<open>sub\<close> that no other record holds, the handler does what
  the claim says. Let a token resolve to a payload with an email, on a server with a
  signing secret. If no user has that email and the new record passes the unique indexes,
  one record is added, with that email, verified, without a password hash and with the
  payload's \<^verbatim>\<open>sub\<close> as googleId. If a user has that email, no record is added; when that
  user's googleId is unset and the payload carries a \<^verbatim>\<open>sub\<close> that no other record holds,
  the record found by the email afterwards has that \<^verbatim>\<open>sub\<close> as googleId and is verified.
  In these cases the answer is 200 with an access and a refresh token generated for that
  user, and one refresh-token row with that refresh token is appended.
\<close>

lemma googleAuth_find_or_create:
  assumes secret: "JWT_SECRET e \<noteq> []"
    and tok: "truthy_string token_f"
    and verified: "google_verify e token_f = Some (Some g)"
    and mail: "g_email g = Some em" "em \<noteq> []"
  shows
    "(findUniqueEmail d em = None
      \<and> \<not> list_ex (\<lambda>v. uid v = newUserId e \<or> (g_sub g \<noteq> None \<and> googleId v = g_sub g)) (users d)
      \<longrightarrow> (\<exists>nu. users (snd (googleAuth e d token_f)) = users d @ [nu]
                \<and> uid nu = newUserId e \<and> email nu = em \<and> isVerified nu
                \<and> password nu = None \<and> googleId nu = g_sub g
                \<and> refreshTokens (snd (googleAuth e d token_f)) = refreshTokens d @
                     [\<lparr>token = generateRefreshToken e (uid nu), userId = uid nu,
                       expiresAt = now e + 7 * day\<rparr>]
                \<and> fst (googleAuth e d token_f) =
                     \<lparr>status = 200,
                      body = MessageUserTokens ''Google authentication successful''
                               (WithPicture (uid nu) em (name nu) (picture nu) True)
                               (generateAccessToken e (uid nu))
                               (generateRefreshToken e (uid nu))\<rparr>))
     \<and> (findUniqueEmail d em = Some u
        \<and> (\<not> truthy (googleId u) \<and> truthy (g_sub g) \<longrightarrow>
             \<not> list_ex (\<lambda>v. uid v \<noteq> uid u \<and> googleId v = g_sub g) (users d))
        \<longrightarrow> map email (users (snd (googleAuth e d token_f))) = map email (users d)
            \<and> (if \<not> truthy (googleId u) \<and> truthy (g_sub g)
                then \<exists>u'. findUniqueEmail (snd (googleAuth e d token_f)) em = Some u'
                       \<and> uid u' = uid u \<and> googleId u' = g_sub g \<and> isVerified u'
                else users (snd (googleAuth e d token_f)) = users d)
            \<and> refreshTokens (snd (googleAuth e d token_f)) = refreshTokens d @
                 [\<lparr>token = generateRefreshToken e (uid u), userId = uid u,
                   expiresAt = now e + 7 * day\<rparr>]
            \<and> (\<exists>view. fst (googleAuth e d token_f) =
                 \<lparr>status = 200,
                  body = MessageUserTokens ''Google authentication successful'' view
                           (generateAccessToken e (uid u))
                           (generateRefreshToken e (uid u))\<rparr>))"
proof -
  note eq = googleAuth_resolved [OF tok verified mail, of d]
  let ?nu = "\<lparr>uid = newUserId e, email = em, name = google_name g, password = None,
              isVerified = True, verificationToken = None, verificationExpires = None,
              resetPasswordToken = None, resetPasswordExpires = None,
              googleId = g_sub g, picture = g_picture g\<rparr>"
  have new: "\<exists>nu. users (snd (googleAuth e d token_f)) = users d @ [nu]
                \<and> uid nu = newUserId e \<and> email nu = em \<and> isVerified nu
                \<and> password nu = None \<and> googleId nu = g_sub g
                \<and> refreshTokens (snd (googleAuth e d token_f)) = refreshTokens d @
                     [\<lparr>token = generateRefreshToken e (uid nu), userId = uid nu,
                       expiresAt = now e + 7 * day\<rparr>]
                \<and> fst (googleAuth e d token_f) =
                     \<lparr>status = 200,
                      body = MessageUserTokens ''Google authentication successful''
                               (WithPicture (uid nu) em (name nu) (picture nu) True)
                               (generateAccessToken e (uid nu))
                               (generateRefreshToken e (uid nu))\<rparr>"
    if none: "findUniqueEmail d em = None"
      and free: "\<not> list_ex (\<lambda>v. uid v = newUserId e
                      \<or> (g_sub g \<noteq> None \<and> googleId v = g_sub g)) (users d)"
  proof -
    from none have noem: "\<forall>v \<in> set (users d). email v \<noteq> em"
      by (simp add: findUniqueEmail_def find_None_iff)
    with free have "user_create d ?nu = Some (d\<lparr>users := users d @ [?nu]\<rparr>)"
      by (auto simp: user_create_def list_ex_iff)
    with none have "googleAuth e d token_f = google_issue e (d\<lparr>users := users d @ [?nu]\<rparr>) ?nu"
      by (simp add: eq)
    then show ?thesis
      by (intro exI [of _ ?nu]) (simp add: google_issue_fst google_issue_snd)
  qed
  have old: "map email (users (snd (googleAuth e d token_f))) = map email (users d)
            \<and> (if \<not> truthy (googleId u) \<and> truthy (g_sub g)
                then \<exists>u'. findUniqueEmail (snd (googleAuth e d token_f)) em = Some u'
                       \<and> uid u' = uid u \<and> googleId u' = g_sub g \<and> isVerified u'
                else users (snd (googleAuth e d token_f)) = users d)
            \<and> refreshTokens (snd (googleAuth e d token_f)) = refreshTokens d @
                 [\<lparr>token = generateRefreshToken e (uid u), userId = uid u,
                   expiresAt = now e + 7 * day\<rparr>]
            \<and> (\<exists>view. fst (googleAuth e d token_f) =
                 \<lparr>status = 200,
                  body = MessageUserTokens ''Google authentication successful'' view
                           (generateAccessToken e (uid u))
                           (generateRefreshToken e (uid u))\<rparr>)"
    if some: "findUniqueEmail d em = Some u"
      and free: "\<not> truthy (googleId u) \<and> truthy (g_sub g) \<longrightarrow>
                 \<not> list_ex (\<lambda>v. uid v \<noteq> uid u \<and> googleId v = g_sub g) (users d)"
  proof (cases "\<not> truthy (googleId u) \<and> truthy (g_sub g)")
    case True
    from free True have upd: "google_update d u g =
        Some (google_backfill g u, user_update d (uid u) (google_backfill g))"
      by (simp add: google_update_def)
    from some True upd have res: "googleAuth e d token_f =
        google_issue e (user_update d (uid u) (google_backfill g)) (google_backfill g u)"
      by (simp add: eq)
    have id: "uid (google_backfill g u) = uid u"
      by (simp add: google_backfill_def)
    have emails: "map email (users (user_update d (uid u) (google_backfill g))) = map email (users d)"
      by (simp add: user_update_def google_backfill_def comp_def)
    have found: "findUniqueEmail (user_update d (uid u) (google_backfill g)) em
                   = Some (google_backfill g u)"
      by (simp add: findUniqueEmail_backfill some)
    have fu: "findUniqueEmail (snd (googleAuth e d token_f)) em = Some (google_backfill g u)"
      using found by (simp add: res google_issue_snd findUniqueEmail_def)
    have props: "googleId (google_backfill g u) = g_sub g" "isVerified (google_backfill g u)"
      by (simp_all add: google_backfill_def)
    from True emails fu props id show ?thesis
      by (simp add: res google_issue_fst google_issue_snd user_update_def)
  next
    case False
    with some have res: "googleAuth e d token_f = google_issue e d u"
      by (auto simp: eq)
    from False have "(if \<not> truthy (googleId u) \<and> truthy (g_sub g)
                then \<exists>u'. findUniqueEmail (snd (googleAuth e d token_f)) em = Some u'
                       \<and> uid u' = uid u \<and> googleId u' = g_sub g \<and> isVerified u'
                else users (snd (googleAuth e d token_f)) = users d)
              = (users (snd (googleAuth e d token_f)) = users d)"
      by (simp only: if_False)
    then show ?thesis
      by (simp add: res google_issue_fst google_issue_snd)
  qed
  from new old show ?thesis by blast
qed

lemma googleAuth_find_or_create_example:
  "truthy_string (Str ''id-bob'')
   \<and> google_verify env0 (Str ''id-bob'') = Some (Some id_payload)
   \<and> g_email id_payload = Some ''bob@example.com''
   \<and> findUniqueEmail db0 ''bob@example.com'' = None
   \<and> \<not> list_ex (\<lambda>v. uid v = newUserId env0
                      \<or> (g_sub id_payload \<noteq> None \<and> googleId v = g_sub id_payload)) (users db0)
   \<and> (\<exists>nu. users (snd (googleAuth env0 db0 (Str ''id-bob''))) = [ann, nu]
          \<and> email nu = ''bob@example.com'' \<and> isVerified nu \<and> password nu = None
          \<and> googleId nu = Some ''g-7'')
   \<and> status (fst (googleAuth env0 db0 (Str ''id-bob''))) = 200
   \<and> length (refreshTokens (snd (googleAuth env0 db0 (Str ''id-bob'')))) = 2
   \<and> google_verify env0 (Str ''id-ann'') = Some (Some ann_payload)
   \<and> g_email ann_payload = Some ''ann@example.com''
   \<and> findUniqueEmail db0 ''ann@example.com'' = Some ann
   \<and> \<not> list_ex (\<lambda>v. uid v \<noteq> uid ann \<and> googleId v = g_sub ann_payload) (users db0)
   \<and> map email (users (snd (googleAuth env0 db0 (Str ''id-ann'')))) = [''ann@example.com'']
   \<and> (\<exists>u'. findUniqueEmail (snd (googleAuth env0 db0 (Str ''id-ann''))) ''ann@example.com''
               = Some u'
          \<and> uid u' = ''u1'' \<and> googleId u' = Some ''g-1'' \<and> isVerified u')
   \<and> status (fst (googleAuth env0 db0 (Str ''id-ann''))) = 200
   \<and> length (refreshTokens (snd (googleAuth env0 db0 (Str ''id-ann'')))) = 2"
proof -
  have sec: "JWT_SECRET env0 \<noteq> []"
    by (simp add: env0_def)
  have t: "truthy_string (Str ''id-bob'')" "truthy_string (Str ''id-ann'')"
    by simp_all
  have vb: "google_verify env0 (Str ''id-bob'') = Some (Some id_payload)"
    by (simp add: google_verify_def env0_def)
  have va: "google_verify env0 (Str ''id-ann'') = Some (Some ann_payload)"
    by (simp add: google_verify_def env0_def)
  have mb: "g_email id_payload = Some ''bob@example.com''" "''bob@example.com'' \<noteq> []"
    by (simp_all add: id_payload_def)
  have ma: "g_email ann_payload = Some ''ann@example.com''" "''ann@example.com'' \<noteq> []"
    by (simp_all add: ann_payload_def)
  have fb: "findUniqueEmail db0 ''bob@example.com'' = None"
    by (simp add: findUniqueEmail_def db0_def ann_def)
  have fa: "findUniqueEmail db0 ''ann@example.com'' = Some ann"
    by (simp add: findUniqueEmail_def db0_def ann_def)
  have freeb: "\<not> list_ex (\<lambda>v. uid v = newUserId env0
                      \<or> (g_sub id_payload \<noteq> None \<and> googleId v = g_sub id_payload)) (users db0)"
    by (simp add: db0_def ann_def env0_def id_payload_def)
  have freea: "\<not> list_ex (\<lambda>v. uid v \<noteq> uid ann \<and> googleId v = g_sub ann_payload) (users db0)"
    by (simp add: db0_def)
  have vals: "users db0 = [ann]" "g_sub id_payload = Some ''g-7''"
    "g_sub ann_payload = Some ''g-1''" "googleId ann = None" "uid ann = ''u1''"
    "email ann = ''ann@example.com''" "length (refreshTokens db0) = 1"
    by (simp_all add: db0_def id_payload_def ann_payload_def ann_def)
  from googleAuth_find_or_create [OF sec t(1) vb mb, of db0 ann] fb freeb
  have b: "(\<exists>nu. users (snd (googleAuth env0 db0 (Str ''id-bob''))) = [ann, nu]
          \<and> email nu = ''bob@example.com'' \<and> isVerified nu \<and> password nu = None
          \<and> googleId nu = Some ''g-7'')
       \<and> status (fst (googleAuth env0 db0 (Str ''id-bob''))) = 200
       \<and> length (refreshTokens (snd (googleAuth env0 db0 (Str ''id-bob'')))) = 2"
    by (auto simp: vals)
  from googleAuth_find_or_create [OF sec t(2) va ma, of db0 ann] fa freea
  have a: "map email (users (snd (googleAuth env0 db0 (Str ''id-ann'')))) = [''ann@example.com'']
       \<and> (\<exists>u'. findUniqueEmail (snd (googleAuth env0 db0 (Str ''id-ann''))) ''ann@example.com''
               = Some u'
          \<and> uid u' = ''u1'' \<and> googleId u' = Some ''g-1'' \<and> isVerified u')
       \<and> status (fst (googleAuth env0 db0 (Str ''id-ann''))) = 200
       \<and> length (refreshTokens (snd (googleAuth env0 db0 (Str ''id-ann'')))) = 2"
    by (auto simp: vals)
  from t vb va mb ma fb fa freeb freea a b show ?thesis by blast
qed

text \<open>
  Where the payload's \<^verbatim>\<open>sub\<close> is the googleId of another record, the unique index
  refuses the write and the handler answers 500, with no token and the store unchanged.
\<close>

lemma googleAuth_googleId_taken_create:
  assumes "truthy_string token_f"
    and "google_verify e token_f = Some (Some g)"
    and "g_email g = Some em" and "em \<noteq> []"
    and "findUniqueEmail d em = None"
    and "g_sub g \<noteq> None"
    and "list_ex (\<lambda>v. googleId v = g_sub g) (users d)"
  shows "googleAuth e d token_f = (internal_error, d)"
proof -
  from assms(6,7) have "user_create d
          \<lparr>uid = newUserId e, email = em, name = google_name g, password = None,
           isVerified = True, verificationToken = None, verificationExpires = None,
           resetPasswordToken = None, resetPasswordExpires = None,
           googleId = g_sub g, picture = g_picture g\<rparr> = None"
    by (auto simp: user_create_def list_ex_iff)
  with assms(5) show ?thesis
    by (simp add: googleAuth_resolved [OF assms(1-4)])
qed

lemma googleAuth_googleId_taken_update:
  assumes "truthy_string token_f"
    and "google_verify e token_f = Some (Some g)"
    and "g_email g = Some em" and "em \<noteq> []"
    and "findUniqueEmail d em = Some u"
    and "\<not> truthy (googleId u)" and "truthy (g_sub g)"
    and "list_ex (\<lambda>v. uid v \<noteq> uid u \<and> googleId v = g_sub g) (users d)"
  shows "googleAuth e d token_f = (internal_error, d)"
  using assms(5-8)
  by (simp add: googleAuth_resolved [OF assms(1-4)] google_update_def)

section \<open>Every handler keeps the rows signed for their owners\<close>

lemma rows_signed_users:
  "rows_signed_for_owner (d\<lparr>users := us\<rparr>) = rows_signed_for_owner d"
  by (simp add: rows_signed_for_owner_def)

lemma rows_signed_create:
  "rows_signed_for_owner
     (refreshToken_create d \<lparr>token = generateRefreshToken e i, userId = i, expiresAt = t\<rparr>)
     = rows_signed_for_owner d"
  by (simp add: rows_signed_for_owner_def refreshToken_create_def generateRefreshToken_def
        jwt_sign_def)

lemma rows_signed_login:
  "rows_signed_for_owner d \<Longrightarrow> rows_signed_for_owner (snd (login e d email_f password_f))"
  by (auto simp: login_def Let_def rows_signed_create split: sum.splits option.splits prod.splits)

lemma rows_signed_googleAuth:
  "rows_signed_for_owner d \<Longrightarrow> rows_signed_for_owner (snd (googleAuth e d token_f))"
  by (auto simp: googleAuth_def google_issue_def google_update_def user_create_def
        user_update_def Let_def rows_signed_create rows_signed_users
        split: option.splits if_splits)

lemma rows_signed_other:
  assumes "rows_signed_for_owner d"
  shows "rows_signed_for_owner (snd (signup e d a b c))"
    and "rows_signed_for_owner (snd (verifyEmail e d t))"
    and "rows_signed_for_owner (snd (resendVerification e d a))"
    and "rows_signed_for_owner (snd (forgotPassword e d a))"
    and "rows_signed_for_owner (snd (resetPassword e d a b))"
    and "rows_signed_for_owner (snd (refreshToken e d r))"
    and "rows_signed_for_owner (snd (logout d r))"
    and "rows_signed_for_owner (snd (logoutAll d i))"
  using assms
  by (auto simp: signup_def verifyEmail_def resendVerification_def forgotPassword_def
        resetPassword_def refreshToken_def logout_def logoutAll_def Let_def
        rows_signed_for_owner_def user_create_def user_update_def refreshToken_deleteMany_def
        list_all_iff
        split: sum.splits option.splits prod.splits field.splits if_splits)

end
